theory Spec2Isabelle
  imports Main "HOL-Library.AList"
begin

section \<open>The pnpm lockfile reader (src/package-manager/modules/pnpm/read.ts)\<close>

subsection \<open>JavaScript values\<close>

text \<open>
  A lockfile is whatever \<^verbatim>\<open>yaml.load\<close> returns: a JavaScript value. An object is seen
  through its own string-keyed properties, in insertion order; the class tag keeps an
  array or another built-in object (a Date) apart from a plain mapping, and its indexed
  elements are properties like the others. A number is represented by the text
  \<^verbatim>\<open>Number.prototype.toString\<close> gives for it (\<^verbatim>\<open>5.4\<close> is \<open>JNum ''5.4''\<close>), the only
  operation the reader applies to a number.
  Inherited properties are not modelled: none of the keys the reader touches
  (\<^verbatim>\<open>importers\<close>, \<^verbatim>\<open>specifiers\<close>, \<^verbatim>\<open>dependenciesMeta\<close>, \<^verbatim>\<open>publishDirectory\<close>,
  \<^verbatim>\<open>lockfileVersion\<close>, the dependency fields) is a property of a built-in prototype.
\<close>

datatype jsclass = Plain | Array | Exotic string

datatype jsval =
    JUndefined
  | JNull
  | JBool bool
  | JNum string
  | JStr string
  | JObj jsclass "(string \<times> jsval) list"

text \<open>An exception value: its \<^verbatim>\<open>code\<close> property (absent on most errors) and its message.\<close>

datatype js_exn = Exn (code: "string option") (message: string)

text \<open>What a call of the reader can throw.\<close>

datatype error =
    Thrown js_exn
  | PnpmError string string
  | LockfileBreakingChangeError string

datatype log_entry = Info string string | Warn string string

subsection \<open>The collaborators\<close>

text \<open>
  Everything \<^verbatim>\<open>read.ts\<close> imports is a parameter of the model: the file system, the YAML
  parser, the merge-conflict helpers, the version helpers, the constants of
  \<^verbatim>\<open>@pnpm/constants\<close> and \<^verbatim>\<open>@pnpm/types\<close>, and the two places where the JavaScript
  engine itself produces text (the message of a TypeError raised by a property write on
  a value that is not an object, and \<^verbatim>\<open>toString\<close> of an object).
  A collaborator that can throw returns \<open>Inl\<close> of the exception.
\<close>

record env =
  fs_readFileSync :: "string \<Rightarrow> js_exn + string"
  stripBom :: "string \<Rightarrow> string"
  yaml_load :: "string \<Rightarrow> js_exn + jsval"
  revertFromInlineSpecifiersFormatIfNecessary :: "jsval \<Rightarrow> js_exn + jsval"
  isDiff :: "string \<Rightarrow> bool"
  mergeFile_autofixMergeConflicts :: "string \<Rightarrow> js_exn + jsval"
  comverToSemver :: "string \<Rightarrow> string"
  semver_major :: "string \<Rightarrow> js_exn + nat"
  semver_gt :: "string \<Rightarrow> string \<Rightarrow> js_exn + bool"
  path_join :: "string \<Rightarrow> string \<Rightarrow> string"
  WANTED_LOCKFILE :: string
  DEPENDENCIES_FIELDS :: "string list"
  typeErrorMessage :: "jsval \<Rightarrow> string"
  objectToString :: "jsval \<Rightarrow> js_exn + string"

subsection \<open>Property access\<close>

text \<open>
  \<^verbatim>\<open>v?.[k]\<close>: the own property, \<^verbatim>\<open>undefined\<close> when it is missing or when \<open>v\<close> is
  not an object. (\<^verbatim>\<open>v[k]\<close> without the \<^verbatim>\<open>?.\<close> differs on \<^verbatim>\<open>null\<close> and \<^verbatim>\<open>undefined\<close> only,
  where it throws; the reader uses it only on values it has already written a property to or
  found truthy.)
\<close>

definition get_prop :: "jsval \<Rightarrow> string \<Rightarrow> jsval" where
  "get_prop v k =
     (case v of
        JObj c ps \<Rightarrow> (case map_of ps k of Some x \<Rightarrow> x | None \<Rightarrow> JUndefined)
      | _ \<Rightarrow> JUndefined)"

text \<open>
  \<^verbatim>\<open>v[k] = x\<close> in strict mode (the module is an ES module): a TypeError when \<open>v\<close> is
  not an object. An existing key keeps its place, a new one goes last.
\<close>

definition set_prop :: "env \<Rightarrow> jsval \<Rightarrow> string \<Rightarrow> jsval \<Rightarrow> js_exn + jsval" where
  "set_prop E v k x =
     (case v of
        JObj c ps \<Rightarrow> Inr (JObj c (AList.update k x ps))
      | _ \<Rightarrow> Inl (Exn None (typeErrorMessage E v)))"

text \<open>\<^verbatim>\<open>delete v[k]\<close>, on a value that a property was written to before.\<close>

definition delete_prop :: "jsval \<Rightarrow> string \<Rightarrow> jsval" where
  "delete_prop v k =
     (case v of
        JObj c ps \<Rightarrow> JObj c (AList.delete k ps)
      | _ \<Rightarrow> v)"

text \<open>\<^verbatim>\<open>a ?? b\<close>\<close>

definition nullish :: "jsval \<Rightarrow> jsval \<Rightarrow> jsval" where
  "nullish a b = (if a = JUndefined \<or> a = JNull then b else a)"

text \<open>Truthiness, as \<^verbatim>\<open>if (v)\<close> tests it. Minus zero prints as \<^verbatim>\<open>0\<close>.\<close>

definition truthy :: "jsval \<Rightarrow> bool" where
  "truthy v =
     (case v of
        JUndefined \<Rightarrow> False
      | JNull \<Rightarrow> False
      | JBool b \<Rightarrow> b
      | JNum s \<Rightarrow> s \<noteq> ''0'' \<and> s \<noteq> ''NaN''
      | JStr s \<Rightarrow> s \<noteq> []
      | JObj c ps \<Rightarrow> True)"

subsection \<open>convertFromLockfileFileMutable (lines 131-150)\<close>

text \<open>The object literal of lines 135-139: the snapshot of the project \<^verbatim>\<open>'.'\<close>.\<close>

definition root_snapshot :: "jsval \<Rightarrow> jsval" where
  "root_snapshot lockfileFile =
     JObj Plain
       [(''specifiers'', nullish (get_prop lockfileFile ''specifiers'') (JObj Plain [])),
        (''dependenciesMeta'', get_prop lockfileFile ''dependenciesMeta''),
        (''publishDirectory'', get_prop lockfileFile ''publishDirectory'')]"

text \<open>
  The loop of lines 142-147. \<^verbatim>\<open>lockfileFile.importers['.'][depType] = x\<close> mutates the
  snapshot in place; the model writes the updated snapshot back along the same path, which
  leaves every key where it was. The test is \<^verbatim>\<open>!== null\<close>: a field that is missing
  (\<^verbatim>\<open>undefined\<close>) passes it, and the snapshot then gets the key with the value
  \<^verbatim>\<open>undefined\<close>; a field that is \<^verbatim>\<open>null\<close> stays where it is.
\<close>

fun move_dependencies :: "env \<Rightarrow> jsval \<Rightarrow> string list \<Rightarrow> js_exn + jsval" where
  "move_dependencies E lockfileFile [] = Inr lockfileFile"
| "move_dependencies E lockfileFile (depType # rest) =
     (if get_prop lockfileFile depType \<noteq> JNull then
        (case set_prop E (get_prop (get_prop lockfileFile ''importers'') ''.'') depType
                (get_prop lockfileFile depType) of
           Inl e \<Rightarrow> Inl e
         | Inr snapshot \<Rightarrow>
             (case set_prop E (get_prop lockfileFile ''importers'') ''.'' snapshot of
                Inl e \<Rightarrow> Inl e
              | Inr importers \<Rightarrow>
                  (case set_prop E lockfileFile ''importers'' importers of
                     Inl e \<Rightarrow> Inl e
                   | Inr lockfileFile' \<Rightarrow>
                       move_dependencies E (delete_prop lockfileFile' depType) rest)))
      else move_dependencies E lockfileFile rest)"

definition convertFromLockfileFileMutable :: "env \<Rightarrow> jsval \<Rightarrow> js_exn + jsval" where
  "convertFromLockfileFileMutable E lockfileFile =
     (if get_prop lockfileFile ''importers'' = JUndefined then
        (case set_prop E lockfileFile ''importers''
                (JObj Plain [(''.'', root_snapshot lockfileFile)]) of
           Inl e \<Rightarrow> Inl e
         | Inr lockfileFile' \<Rightarrow>
             move_dependencies E (delete_prop lockfileFile' ''specifiers'')
               (DEPENDENCIES_FIELDS E))
      else Inr lockfileFile)"

subsection \<open>The options and the result of a read\<close>

text \<open>
  An optional field of the options object is an \<open>option\<close>: \<open>None\<close> is \<^verbatim>\<open>undefined\<close>.
  \<^verbatim>\<open>useGitBranchLockfile\<close> and \<^verbatim>\<open>mergeGitBranchLockfiles\<close> are never read.
  The \<^verbatim>\<open>null\<close> lockfile of a result is \<open>JNull\<close>.
\<close>

record opts =
  autofixMergeConflicts :: "bool option"
  wantedVersions :: "string list option"
  ignoreIncompatible :: bool

record read_result =
  lockfile :: jsval
  hadConflicts :: bool

type_synonym 'a logged = "log_entry list \<times> 'a"

subsection \<open>The compatibility test (lines 75-97)\<close>

text \<open>\<^verbatim>\<open>v.toString()\<close>, for a \<open>v\<close> that is neither \<^verbatim>\<open>null\<close> nor \<^verbatim>\<open>undefined\<close>.\<close>

definition toString :: "env \<Rightarrow> jsval \<Rightarrow> js_exn + string" where
  "toString E v =
     (case v of
        JStr s \<Rightarrow> Inr s
      | JNum s \<Rightarrow> Inr s
      | JBool b \<Rightarrow> Inr (if b then ''true'' else ''false'')
      | JObj c ps \<Rightarrow> objectToString E v
      | _ \<Rightarrow> Inl (Exn None (typeErrorMessage E v)))"

text \<open>Line 76: \<^verbatim>\<open>comverToSemver((lockfile.lockfileVersion ?? 0).toString())\<close>.\<close>

definition lockfileSemver :: "env \<Rightarrow> jsval \<Rightarrow> js_exn + string" where
  "lockfileSemver E lf =
     (case toString E (nullish (get_prop lf ''lockfileVersion'') (JNum ''0'')) of
        Inl e \<Rightarrow> Inl e
      | Inr token \<Rightarrow> Inr (comverToSemver E token))"

definition downgrade_warning :: "env \<Rightarrow> string \<Rightarrow> string" where
  "downgrade_warning E wantedVersion =
     ''Your '' @ WANTED_LOCKFILE E @ '' was generated by a newer version of pnpm. '' @
     ''It is a compatible version but it might get downgraded to version '' @ wantedVersion"

text \<open>
  The callback of lines 81-93, with what it logs. The carve-out compares the raw field
  with the string \<^verbatim>\<open>'6.1'\<close> by \<^verbatim>\<open>!==\<close>, so the number 6.1 is not the carve-out.
\<close>

definition wanted_callback ::
  "env \<Rightarrow> jsval \<Rightarrow> string \<Rightarrow> string \<Rightarrow> string \<Rightarrow> (js_exn + bool) logged" where
  "wanted_callback E lf lfSemver prefix wantedVersion =
     (case semver_major E lfSemver of
        Inl e \<Rightarrow> ([], Inl e)
      | Inr m \<Rightarrow>
          (case semver_major E (comverToSemver E wantedVersion) of
             Inl e \<Rightarrow> ([], Inl e)
           | Inr mw \<Rightarrow>
               if m \<noteq> mw then ([], Inr False)
               else if get_prop lf ''lockfileVersion'' \<noteq> JStr ''6.1'' then
                 (case semver_gt E lfSemver (comverToSemver E wantedVersion) of
                    Inl e \<Rightarrow> ([], Inl e)
                  | Inr newer \<Rightarrow>
                      if newer then ([Warn (downgrade_warning E wantedVersion) prefix], Inr True)
                      else ([], Inr True))
               else ([], Inr True)))"

text \<open>\<^verbatim>\<open>Array.prototype.some\<close>: stops at the first element the callback accepts, or where it throws.\<close>

fun some_js :: "('a \<Rightarrow> (js_exn + bool) logged) \<Rightarrow> 'a list \<Rightarrow> (js_exn + bool) logged" where
  "some_js f [] = ([], Inr False)"
| "some_js f (x # xs) =
     (case f x of
        (l, Inl e) \<Rightarrow> (l, Inl e)
      | (l, Inr ok) \<Rightarrow>
          if ok then (l, Inr True)
          else (case some_js f xs of (l', r) \<Rightarrow> (l @ l', r)))"

text \<open>The condition of lines 78-94.\<close>

definition version_wanted ::
  "env \<Rightarrow> jsval \<Rightarrow> string \<Rightarrow> string \<Rightarrow> opts \<Rightarrow> (js_exn + bool) logged" where
  "version_wanted E lf lfSemver prefix os =
     (case wantedVersions os of
        None \<Rightarrow> ([], Inr True)
      | Some ws \<Rightarrow>
          if length ws = 0 then ([], Inr True)
          else some_js (wanted_callback E lf lfSemver prefix) ws)"

text \<open>Lines 75-97: whether the function returns the lockfile at line 95.\<close>

definition compatible :: "env \<Rightarrow> jsval \<Rightarrow> string \<Rightarrow> opts \<Rightarrow> (js_exn + bool) logged" where
  "compatible E lf prefix os =
     (if truthy lf then
        (case lockfileSemver E lf of
           Inl e \<Rightarrow> ([], Inl e)
         | Inr lfSemver \<Rightarrow> version_wanted E lf lfSemver prefix os)
      else ([], Inr False))"

text \<open>Lines 75-102, for the lockfile and the flag that lines 56-74 have produced.\<close>

definition check_version ::
  "env \<Rightarrow> string \<Rightarrow> string \<Rightarrow> opts \<Rightarrow> jsval \<Rightarrow> bool \<Rightarrow> (error + read_result) logged" where
  "check_version E lockfilePath prefix os lf conflicts =
     (case compatible E lf prefix os of
        (l, Inl e) \<Rightarrow> (l, Inl (Thrown e))
      | (l, Inr ok) \<Rightarrow>
          if ok then (l, Inr \<lparr>lockfile = lf, hadConflicts = conflicts\<rparr>)
          else if ignoreIncompatible os then
            (l @ [Warn (''Ignoring not compatible lockfile at '' @ lockfilePath) prefix],
             Inr \<lparr>lockfile = JNull, hadConflicts = False\<rparr>)
          else (l, Inl (LockfileBreakingChangeError lockfilePath)))"

subsection \<open>Parsing, with the repair of merge conflicts (lines 56-74)\<close>

text \<open>The body of the \<^verbatim>\<open>try\<close> of lines 58-62.\<close>

definition parse_lockfile :: "env \<Rightarrow> string \<Rightarrow> js_exn + jsval" where
  "parse_lockfile E lockfileRawContent =
     (case yaml_load E lockfileRawContent of
        Inl e \<Rightarrow> Inl e
      | Inr y \<Rightarrow>
          (case convertFromLockfileFileMutable E y of
             Inl e \<Rightarrow> Inl e
           | Inr c \<Rightarrow> revertFromInlineSpecifiersFormatIfNecessary E c))"

definition broken_lockfile :: "string \<Rightarrow> js_exn \<Rightarrow> error" where
  "broken_lockfile lockfilePath err =
     PnpmError ''BROKEN_LOCKFILE''
       (''The lockfile at '' @ [CHR 0x22] @ lockfilePath @ [CHR 0x22] @ '' is broken: '' @ message err)"

text \<open>
  Lines 56-74. Whatever the \<^verbatim>\<open>try\<close> throws is caught; what the repair throws is not.
\<close>

definition load_lockfile ::
  "env \<Rightarrow> string \<Rightarrow> string \<Rightarrow> opts \<Rightarrow> string \<Rightarrow> (error + jsval \<times> bool) logged" where
  "load_lockfile E lockfilePath prefix os lockfileRawContent =
     (case parse_lockfile E lockfileRawContent of
        Inr lf \<Rightarrow> ([], Inr (lf, False))
      | Inl err \<Rightarrow>
          if autofixMergeConflicts os \<noteq> Some True \<or> \<not> isDiff E lockfileRawContent then
            ([], Inl (broken_lockfile lockfilePath err))
          else
            (case mergeFile_autofixMergeConflicts E lockfileRawContent of
               Inl e \<Rightarrow> ([], Inl (Thrown e))
             | Inr merged \<Rightarrow>
                 (case convertFromLockfileFileMutable E merged of
                    Inl e \<Rightarrow> ([], Inl (Thrown e))
                  | Inr lf \<Rightarrow>
                      ([Info (''Merge conflict detected in '' @ WANTED_LOCKFILE E @
                              '' and successfully merged'') prefix],
                       Inr (lf, True)))))"

subsection \<open>The read of one path (lines 31-103)\<close>

text \<open>
  \<^verbatim>\<open>_read\<close> in the source; an Isabelle name cannot start with an underscore.
  The result is the log, in order, and either what is thrown or what is returned.
\<close>

definition u_read :: "env \<Rightarrow> string \<Rightarrow> string \<Rightarrow> opts \<Rightarrow> (error + read_result) logged" where
  "u_read E lockfilePath prefix os =
     (case fs_readFileSync E lockfilePath of
        Inl err \<Rightarrow>
          if code err \<noteq> Some ''ENOENT'' then ([], Inl (Thrown err))
          else ([], Inr \<lparr>lockfile = JNull, hadConflicts = False\<rparr>)
      | Inr content \<Rightarrow>
          (case load_lockfile E lockfilePath prefix os (stripBom E content) of
             (l, Inl e) \<Rightarrow> (l, Inl e)
           | (l, Inr (lf, conflicts)) \<Rightarrow>
               (case check_version E lockfilePath prefix os lf conflicts of
                  (l', r) \<Rightarrow> (l @ l', r))))"

subsection \<open>The read of a project (lines 19-29 and 105-126)\<close>

text \<open>The loop of lines 118-123 over the candidate names, from the result so far.\<close>

fun read_candidates ::
  "env \<Rightarrow> string \<Rightarrow> opts \<Rightarrow> read_result \<Rightarrow> string list \<Rightarrow> (error + read_result) logged" where
  "read_candidates E pkgPath os result [] = ([], Inr result)"
| "read_candidates E pkgPath os result (lockfileName # rest) =
     (case u_read E (path_join E pkgPath lockfileName) pkgPath
             (os\<lparr>autofixMergeConflicts := Some True\<rparr>) of
        (l, Inl e) \<Rightarrow> (l, Inl e)
      | (l, Inr result') \<Rightarrow>
          if truthy (lockfile result') then (l, Inr result')
          else (case read_candidates E pkgPath os result' rest of (l', r) \<Rightarrow> (l @ l', r)))"

definition u_readWantedLockfile :: "env \<Rightarrow> string \<Rightarrow> opts \<Rightarrow> (error + read_result) logged" where
  "u_readWantedLockfile E pkgPath os =
     read_candidates E pkgPath os \<lparr>lockfile = JNull, hadConflicts = False\<rparr> [WANTED_LOCKFILE E]"

definition readWantedLockfile :: "env \<Rightarrow> string \<Rightarrow> opts \<Rightarrow> (error + jsval) logged" where
  "readWantedLockfile E pkgPath os =
     (case u_readWantedLockfile E pkgPath os of
        (l, Inl e) \<Rightarrow> (l, Inl e)
      | (l, Inr result) \<Rightarrow> (l, Inr (lockfile result)))"

subsection \<open>Properties of a document\<close>

text \<open>Whether the object has the key itself, whatever the value.\<close>

definition has_own_prop :: "jsval \<Rightarrow> string \<Rightarrow> bool" where
  "has_own_prop v k = (case v of JObj c ps \<Rightarrow> map_of ps k \<noteq> None | _ \<Rightarrow> False)"

text \<open>
  The shape line 133 gives a legacy document and the loop keeps: \<^verbatim>\<open>importers\<close> is a plain
  object whose only key is \<^verbatim>\<open>'.'\<close>, bound to a plain object.
\<close>

definition rooted :: "jsval \<Rightarrow> bool" where
  "rooted d =
     (case d of
        JObj c ps \<Rightarrow>
          (case map_of ps ''importers'' of
             Some (JObj Plain [(k, JObj Plain snapshot)]) \<Rightarrow> k = ''.''
           | _ \<Rightarrow> False)
      | _ \<Rightarrow> False)"

subsection \<open>A small environment to run the reader in\<close>

text \<open>
  Stand-ins for the collaborators, used where a theorem is instantiated at a concrete
  input: versions of the form \<^verbatim>\<open>major.minor.patch\<close> compared component by component,
  \<^verbatim>\<open>comverToSemver\<close> as the package of that name defines it, a YAML parser that knows the
  one-line document \<^verbatim>\<open>lockfileVersion: "x"\<close>, a merge that keeps the first side of the
  conflict, and a file system with a handful of files.
\<close>

fun split_dots :: "string \<Rightarrow> string \<Rightarrow> string list" where
  "split_dots acc [] = [rev acc]"
| "split_dots acc (c # cs) =
     (if c = CHR ''.'' then rev acc # split_dots [] cs else split_dots (c # acc) cs)"

definition digit_of :: "char \<Rightarrow> nat option" where
  "digit_of c = (let n = (of_char c :: nat) in if 48 \<le> n \<and> n \<le> 57 then Some (n - 48) else None)"

fun number_of :: "nat \<Rightarrow> string \<Rightarrow> nat option" where
  "number_of n [] = Some n"
| "number_of n (c # cs) =
     (case digit_of c of None \<Rightarrow> None | Some k \<Rightarrow> number_of (10 * n + k) cs)"

definition demo_parse :: "string \<Rightarrow> (nat \<times> nat \<times> nat) option" where
  "demo_parse s =
     (case map (\<lambda>p. if p = [] then None else number_of 0 p) (split_dots [] s) of
        [Some a, Some b, Some c] \<Rightarrow> Some (a, b, c)
      | _ \<Rightarrow> None)"

definition demo_major :: "string \<Rightarrow> js_exn + nat" where
  "demo_major s =
     (case demo_parse s of
        None \<Rightarrow> Inl (Exn None (''Invalid Version: '' @ s))
      | Some (a, b, c) \<Rightarrow> Inr a)"

definition demo_gt :: "string \<Rightarrow> string \<Rightarrow> js_exn + bool" where
  "demo_gt s t =
     (case demo_parse s of
        None \<Rightarrow> Inl (Exn None (''Invalid Version: '' @ s))
      | Some (a, b, c) \<Rightarrow>
          (case demo_parse t of
             None \<Rightarrow> Inl (Exn None (''Invalid Version: '' @ t))
           | Some (a', b', c') \<Rightarrow>
               Inr (a' < a \<or> (a' = a \<and> (b' < b \<or> (b' = b \<and> c' < c))))))"

definition demo_comverToSemver :: "string \<Rightarrow> string" where
  "demo_comverToSemver comver =
     (if CHR ''.'' \<in> set comver then comver @ ''.0'' else comver @ ''.0.0'')"

definition version_line :: "string \<Rightarrow> string" where
  "version_line v = ''lockfileVersion: '' @ [CHR 0x22] @ v @ [CHR 0x22]"

definition demo_yaml_load :: "string \<Rightarrow> js_exn + jsval" where
  "demo_yaml_load s =
     (if take 18 s = ''lockfileVersion: '' @ [CHR 0x22] \<and> 19 < length s \<and> last s = CHR 0x22
           \<and> CHR 0x0A \<notin> set s then
        Inr (JObj Plain [(''lockfileVersion'', JStr (butlast (drop 18 s)))])
      else Inl (Exn None ''YAMLException''))"

definition conflicted :: "string \<Rightarrow> string \<Rightarrow> string" where
  "conflicted ours theirs =
     ''<<<<<<< HEAD'' @ [CHR 0x0A] @ ours @ [CHR 0x0A] @ ''======='' @ [CHR 0x0A] @ theirs @
     [CHR 0x0A] @ ''>>>>>>> theirs''"

definition demo_isDiff :: "string \<Rightarrow> bool" where
  "demo_isDiff s = (take 7 s = ''<<<<<<<'')"

definition demo_autofix :: "string \<Rightarrow> js_exn + jsval" where
  "demo_autofix s =
     demo_yaml_load (takeWhile (\<lambda>c. c \<noteq> CHR 0x0A) (drop 1 (dropWhile (\<lambda>c. c \<noteq> CHR 0x0A) s)))"

definition demo_files :: "string \<Rightarrow> js_exn + string" where
  "demo_files p =
     (if p = ''/p60/pnpm-lock.yaml'' then Inr (version_line ''6.0'')
      else if p = ''/p62/pnpm-lock.yaml'' then Inr (version_line ''6.2'')
      else if p = ''/p70/pnpm-lock.yaml'' then Inr (version_line ''7.0'')
      else if p = ''/c60/pnpm-lock.yaml'' then
        Inr (conflicted (version_line ''6.0'') (version_line ''6.0''))
      else if p = ''/c70/pnpm-lock.yaml'' then
        Inr (conflicted (version_line ''7.0'') (version_line ''7.0''))
      else if p = ''/bad/pnpm-lock.yaml'' then Inr ''{''
      else if p = ''/denied/pnpm-lock.yaml'' then
        Inl (Exn (Some ''EACCES'') ''EACCES: permission denied'')
      else Inl (Exn (Some ''ENOENT'') ''ENOENT: no such file or directory''))"

definition demo_stripBom :: "string \<Rightarrow> string" where
  "demo_stripBom s = (if take 3 s = [CHR 0xEF, CHR 0xBB, CHR 0xBF] then drop 3 s else s)"

definition demo :: env where
  "demo =
     \<lparr>fs_readFileSync = demo_files,
      stripBom = demo_stripBom,
      yaml_load = demo_yaml_load,
      revertFromInlineSpecifiersFormatIfNecessary = Inr,
      isDiff = demo_isDiff,
      mergeFile_autofixMergeConflicts = demo_autofix,
      comverToSemver = demo_comverToSemver,
      semver_major = demo_major,
      semver_gt = demo_gt,
      path_join = (\<lambda>a b. a @ ''/'' @ b),
      WANTED_LOCKFILE = ''pnpm-lock.yaml'',
      DEPENDENCIES_FIELDS = [''optionalDependencies'', ''dependencies'', ''devDependencies''],
      typeErrorMessage = (\<lambda>v. ''Cannot set properties''),
      objectToString = (\<lambda>v. Inr ''[object Object]'')\<rparr>"

definition canonical :: "string \<Rightarrow> jsval" where
  "canonical v =
     JObj Plain
       [(''lockfileVersion'', JStr v),
        (''importers'',
         JObj Plain
           [(''.'',
             JObj Plain
               [(''specifiers'', JObj Plain []),
                (''dependenciesMeta'', JUndefined),
                (''publishDirectory'', JUndefined),
                (''optionalDependencies'', JUndefined),
                (''dependencies'', JUndefined),
                (''devDependencies'', JUndefined)])])]"

definition wanting :: "string list \<Rightarrow> bool \<Rightarrow> opts" where
  "wanting ws ignore =
     \<lparr>autofixMergeConflicts = Some True, wantedVersions = Some ws, ignoreIncompatible = ignore\<rparr>"

text \<open>A legacy document, what it normalises to, and a document with both layouts.\<close>

definition legacy :: jsval where
  "legacy =
     JObj Plain
       [(''lockfileVersion'', JStr ''5.4''),
        (''specifiers'', JObj Plain [(''a'', JStr ''^1.0.0'')]),
        (''dependencies'', JObj Plain [(''a'', JStr ''1.0.0'')]),
        (''devDependencies'', JNull),
        (''packages'', JObj Plain [])]"

definition legacy_normalized :: jsval where
  "legacy_normalized =
     JObj Plain
       [(''lockfileVersion'', JStr ''5.4''),
        (''devDependencies'', JNull),
        (''packages'', JObj Plain []),
        (''importers'',
         JObj Plain
           [(''.'',
             JObj Plain
               [(''specifiers'', JObj Plain [(''a'', JStr ''^1.0.0'')]),
                (''dependenciesMeta'', JUndefined),
                (''publishDirectory'', JUndefined),
                (''optionalDependencies'', JUndefined),
                (''dependencies'', JObj Plain [(''a'', JStr ''1.0.0'')])])])]"

definition mixed :: jsval where
  "mixed =
     JObj Plain
       [(''importers'', JObj Plain []),
        (''dependencies'', JObj Plain [(''a'', JStr ''1.0.0'')])]"

section \<open>Verification\<close>

subsection \<open>Unfolding\<close>

lemmas demo_defs = demo_def demo_files_def demo_stripBom_def demo_yaml_load_def version_line_def
  demo_isDiff_def demo_autofix_def conflicted_def demo_comverToSemver_def demo_major_def demo_gt_def
  demo_parse_def digit_of_def canonical_def

lemmas model_defs = u_read_def load_lockfile_def parse_lockfile_def check_version_def compatible_def
  version_wanted_def wanted_callback_def lockfileSemver_def toString_def truthy_def nullish_def
  get_prop_def set_prop_def delete_prop_def convertFromLockfileFileMutable_def root_snapshot_def
  downgrade_warning_def broken_lockfile_def

subsection \<open>The normalisation keeps its shape\<close>

lemma rootedE:
  assumes "rooted d"
  obtains c ps snap where "d = JObj c ps" "map_of ps ''importers'' = Some (JObj Plain [(''.'', JObj Plain snap)])"
  using assms unfolding rooted_def
  by (auto split: jsval.splits option.splits jsclass.splits list.splits prod.splits)

lemma rootedI:
  "map_of ps ''importers'' = Some (JObj Plain [(''.'', JObj Plain snap)]) \<Longrightarrow> rooted (JObj c ps)"
  by (simp add: rooted_def)

lemma move_dependencies_step:
  assumes "rooted d" "f \<noteq> ''importers''"
  shows "\<exists>d1. rooted d1 \<and> move_dependencies E d (f # fs) = move_dependencies E d1 fs
     \<and> (\<forall>g. g \<noteq> ''importers'' \<longrightarrow> g \<noteq> f \<longrightarrow> (has_own_prop d1 g = has_own_prop d g \<and> get_prop d1 g = get_prop d g))
     \<and> (has_own_prop d1 f \<longrightarrow> get_prop d1 f = JNull)"
proof -
  from assms(1) obtain c ps snap where d: "d = JObj c ps"
    and imp: "map_of ps ''importers'' = Some (JObj Plain [(''.'', JObj Plain snap)])"
    by (rule rootedE)
  show ?thesis
  proof (cases "get_prop d f = JNull")
    case True
    then show ?thesis using assms(1) by (intro exI[of _ d]) simp
  next
    case False
    let ?d1 = "JObj c (AList.delete f (AList.update ''importers''
        (JObj Plain [(''.'', JObj Plain (AList.update f (get_prop d f) snap))]) ps))"
    have "move_dependencies E d (f # fs) = move_dependencies E ?d1 fs"
      using False d imp by (simp add: get_prop_def set_prop_def delete_prop_def)
    moreover have "rooted ?d1"
      using assms(2) by (intro rootedI[where snap = "AList.update f (get_prop d f) snap"]) (simp add: update_conv')
    moreover have "\<forall>g. g \<noteq> ''importers'' \<longrightarrow> g \<noteq> f \<longrightarrow> (has_own_prop ?d1 g = has_own_prop d g \<and> get_prop ?d1 g = get_prop d g)"
      using d by (simp add: has_own_prop_def get_prop_def update_conv')
    moreover have "has_own_prop ?d1 f \<longrightarrow> get_prop ?d1 f = JNull"
      by (simp add: has_own_prop_def delete_conv')
    ultimately show ?thesis by blast
  qed
qed

lemma move_dependencies_rooted:
  "rooted d \<Longrightarrow> ''importers'' \<notin> set fs \<Longrightarrow>
     \<exists>d'. move_dependencies E d fs = Inr d' \<and> rooted d' \<and>
       (\<forall>g. g \<noteq> ''importers'' \<longrightarrow> (g \<in> set fs \<or> (has_own_prop d g \<longrightarrow> get_prop d g = JNull)) \<longrightarrow>
            (has_own_prop d' g \<longrightarrow> get_prop d' g = JNull))"
proof (induction fs arbitrary: d)
  case Nil
  then show ?case by simp
next
  case (Cons f fs)
  then have f: "f \<noteq> ''importers''" and fs: "''importers'' \<notin> set fs" by auto
  from move_dependencies_step[OF Cons.prems(1) f, of E fs]
  obtain d1 where d1: "rooted d1" "move_dependencies E d (f # fs) = move_dependencies E d1 fs"
    and same: "\<And>g. g \<noteq> ''importers'' \<Longrightarrow> g \<noteq> f \<Longrightarrow> has_own_prop d1 g = has_own_prop d g \<and> get_prop d1 g = get_prop d g"
    and cleared: "has_own_prop d1 f \<longrightarrow> get_prop d1 f = JNull"
    by blast
  from Cons.IH[OF d1(1) fs] obtain d' where d': "move_dependencies E d1 fs = Inr d'" "rooted d'"
    and rest: "\<And>g. g \<noteq> ''importers'' \<Longrightarrow> (g \<in> set fs \<or> (has_own_prop d1 g \<longrightarrow> get_prop d1 g = JNull)) \<Longrightarrow>
            (has_own_prop d' g \<longrightarrow> get_prop d' g = JNull)"
    by blast
  have "(has_own_prop d' g \<longrightarrow> get_prop d' g = JNull)"
    if "g \<noteq> ''importers''" "g \<in> set (f # fs) \<or> (has_own_prop d g \<longrightarrow> get_prop d g = JNull)" for g
  proof (cases "g = f")
    case True
    then show ?thesis using rest[OF that(1)] cleared by blast
  next
    case False
    then show ?thesis using rest[OF that(1)] same[OF that(1) False] that(2) by auto
  qed
  then show ?case using d1(2) d' by auto
qed

lemma rooted_importers: "rooted d \<Longrightarrow> get_prop d ''importers'' \<noteq> JUndefined"
  by (erule rootedE) (simp add: get_prop_def)

lemma convert_cases:
  assumes "''importers'' \<notin> set (DEPENDENCIES_FIELDS E)"
  shows "(get_prop d ''importers'' \<noteq> JUndefined \<and> convertFromLockfileFileMutable E d = Inr d)
       \<or> (get_prop d ''importers'' = JUndefined \<and> (\<exists>e. convertFromLockfileFileMutable E d = Inl e) \<and> (\<forall>c ps. d \<noteq> JObj c ps))
       \<or> (get_prop d ''importers'' = JUndefined \<and> (\<exists>d'. convertFromLockfileFileMutable E d = Inr d' \<and> rooted d' \<and>
             (\<forall>g\<in>set (DEPENDENCIES_FIELDS E). has_own_prop d' g \<longrightarrow> get_prop d' g = JNull)))"
proof (cases "get_prop d ''importers'' = JUndefined")
  case False
  then show ?thesis by (simp add: convertFromLockfileFileMutable_def)
next
  case True
  show ?thesis
  proof (cases "\<exists>c ps. d = JObj c ps")
    case False
    then have "\<exists>e. convertFromLockfileFileMutable E d = Inl e"
      using True by (cases d) (simp_all add: convertFromLockfileFileMutable_def set_prop_def)
    then show ?thesis using True False by blast
  next
    case obj: True
    then obtain c ps where d: "d = JObj c ps" by blast
    let ?d0 = "JObj c (AList.delete ''specifiers'' (AList.update ''importers'' (JObj Plain [(''.'', root_snapshot d)]) ps))"
    have conv: "convertFromLockfileFileMutable E d = move_dependencies E ?d0 (DEPENDENCIES_FIELDS E)"
      using True d by (simp add: convertFromLockfileFileMutable_def set_prop_def delete_prop_def)
    have "rooted ?d0"
      unfolding root_snapshot_def by (rule rootedI) (simp add: update_conv')
    from move_dependencies_rooted[OF this assms, of E]
    obtain d' where "move_dependencies E ?d0 (DEPENDENCIES_FIELDS E) = Inr d'" "rooted d'"
      "\<And>g. g \<noteq> ''importers'' \<Longrightarrow> g \<in> set (DEPENDENCIES_FIELDS E) \<Longrightarrow> has_own_prop d' g \<longrightarrow> get_prop d' g = JNull"
      by blast
    then show ?thesis using True conv assms by (metis)
  qed
qed

subsection \<open>The version test and the read\<close>

lemma some_js_none:
  "(\<And>w. w \<in> set ws \<Longrightarrow> f w = ([], Inr False)) \<Longrightarrow> some_js f ws = ([], Inr False)"
  by (induction ws) simp_all

lemma some_js_first:
  "(\<And>x. x \<in> set pre \<Longrightarrow> f x = ([], Inr False)) \<Longrightarrow> f w = (l, Inr True) \<Longrightarrow>
     some_js f (pre @ w # post) = (l, Inr True)"
  by (induction pre) simp_all

lemma wanted_callback_other_major:
  "semver_major E sv = Inr m \<Longrightarrow> semver_major E (comverToSemver E w) = Inr mw \<Longrightarrow> mw \<noteq> m \<Longrightarrow>
     wanted_callback E lf sv prefix w = ([], Inr False)"
  by (auto simp: wanted_callback_def)

lemma wanted_callback_not_newer:
  "semver_major E sv = Inr m \<Longrightarrow> semver_major E (comverToSemver E w) = Inr m \<Longrightarrow>
   semver_gt E sv (comverToSemver E w) = Inr False \<Longrightarrow>
     wanted_callback E lf sv prefix w = ([], Inr True)"
  by (simp add: wanted_callback_def)

lemma wanted_callback_newer:
  "semver_major E sv = Inr m \<Longrightarrow> semver_major E (comverToSemver E w) = Inr m \<Longrightarrow>
   semver_gt E sv (comverToSemver E w) = Inr True \<Longrightarrow> get_prop lf ''lockfileVersion'' \<noteq> JStr ''6.1'' \<Longrightarrow>
     wanted_callback E lf sv prefix w = ([Warn (downgrade_warning E w) prefix], Inr True)"
  by (simp add: wanted_callback_def)

lemma compatible_first_same_major:
  assumes "truthy lf" "lockfileSemver E lf = Inr sv" "semver_major E sv = Inr m"
    and "wantedVersions os = Some (pre @ w # post)"
    and "\<forall>x\<in>set pre. \<exists>mx. semver_major E (comverToSemver E x) = Inr mx \<and> mx \<noteq> m"
    and "wanted_callback E lf sv prefix w = (l, Inr True)"
  shows "compatible E lf prefix os = (l, Inr True)"
proof -
  have "wanted_callback E lf sv prefix x = ([], Inr False)" if "x \<in> set pre" for x
    using that assms(3,5) wanted_callback_other_major by blast
  then have "some_js (wanted_callback E lf sv prefix) (pre @ w # post) = (l, Inr True)"
    using assms(6) by (rule some_js_first)
  then show ?thesis
    using assms(1,2,4) by (simp add: compatible_def version_wanted_def)
qed

lemma compatible_no_same_major:
  assumes "truthy lf" "lockfileSemver E lf = Inr sv" "semver_major E sv = Inr m"
    and "wantedVersions os = Some ws" "ws \<noteq> []"
    and "\<forall>w\<in>set ws. \<exists>mw. semver_major E (comverToSemver E w) = Inr mw \<and> mw \<noteq> m"
  shows "compatible E lf prefix os = ([], Inr False)"
proof -
  have "wanted_callback E lf sv prefix w = ([], Inr False)" if "w \<in> set ws" for w
    using that assms(3,6) wanted_callback_other_major by blast
  then have "some_js (wanted_callback E lf sv prefix) ws = ([], Inr False)"
    by (rule some_js_none)
  then show ?thesis
    using assms(1,2,4,5) by (simp add: compatible_def version_wanted_def)
qed

lemma u_read_loaded:
  "fs_readFileSync E p = Inr content \<Longrightarrow>
   load_lockfile E p prefix os (stripBom E content) = (l, Inr (lf, conflicts)) \<Longrightarrow>
     u_read E p prefix os =
       (case check_version E p prefix os lf conflicts of (l', r) \<Rightarrow> (l @ l', r))"
  by (simp add: u_read_def)

lemma check_version_accept:
  "compatible E lf prefix os = (l, Inr True) \<Longrightarrow>
     check_version E p prefix os lf conflicts = (l, Inr \<lparr>lockfile = lf, hadConflicts = conflicts\<rparr>)"
  by (simp add: check_version_def)

lemma check_version_reject:
  "compatible E lf prefix os = (l, Inr False) \<Longrightarrow>
     check_version E p prefix os lf conflicts =
       (if ignoreIncompatible os then
          (l @ [Warn (''Ignoring not compatible lockfile at '' @ p) prefix],
           Inr \<lparr>lockfile = JNull, hadConflicts = False\<rparr>)
        else (l, Inl (LockfileBreakingChangeError p)))"
  by (simp add: check_version_def)

lemma load_lockfile_merged:
  "parse_lockfile E raw = Inl err \<Longrightarrow> autofixMergeConflicts os = Some True \<Longrightarrow> isDiff E raw \<Longrightarrow>
   mergeFile_autofixMergeConflicts E raw = Inr merged \<Longrightarrow>
   convertFromLockfileFileMutable E merged = Inr lf \<Longrightarrow>
     load_lockfile E p prefix os raw =
       ([Info (''Merge conflict detected in '' @ WANTED_LOCKFILE E @ '' and successfully merged'') prefix],
        Inr (lf, True))"
  by (simp add: load_lockfile_def)

lemma move_dependencies_truthy:
  "move_dependencies E (JObj c ps) fs = Inr d' \<Longrightarrow> truthy d'"
proof (induction fs arbitrary: c ps)
  case Nil
  then show ?case by (auto simp: truthy_def)
next
  case (Cons f fs)
  then show ?case
    by (auto simp: set_prop_def delete_prop_def split: if_splits sum.splits jsval.splits)
qed

lemma convert_result_truthy:
  assumes "convertFromLockfileFileMutable E v = Inr lf"
  shows "truthy lf"
proof (cases v)
  case (JObj c ps)
  then show ?thesis
    using assms move_dependencies_truthy
    by (auto simp: convertFromLockfileFileMutable_def set_prop_def delete_prop_def truthy_def
        split: if_splits)
qed (use assms in \<open>simp_all add: convertFromLockfileFileMutable_def get_prop_def set_prop_def\<close>)

subsection \<open>The small environment, evaluated\<close>

lemma demo_load_p70:
  "load_lockfile demo ''/p70/pnpm-lock.yaml'' ''/p70'' os (stripBom demo (version_line ''7.0'')) = ([], Inr (canonical ''7.0'', False))"
  by (simp add: model_defs demo_defs)

lemma demo_fields: "''importers'' \<notin> set (DEPENDENCIES_FIELDS demo)"
  by (simp add: demo_def)

lemma demo_convert_legacy: "convertFromLockfileFileMutable demo legacy = Inr legacy_normalized"
  by (simp add: convertFromLockfileFileMutable_def root_snapshot_def get_prop_def set_prop_def
      delete_prop_def nullish_def demo_def legacy_def legacy_normalized_def)

lemma demo_c60: "fs_readFileSync demo ''/c60/pnpm-lock.yaml'' = Inr (conflicted (version_line ''6.0'') (version_line ''6.0''))"
  by (simp add: demo_def demo_files_def)

lemma demo_c70: "fs_readFileSync demo ''/c70/pnpm-lock.yaml'' = Inr (conflicted (version_line ''7.0'') (version_line ''7.0''))"
  by (simp add: demo_def demo_files_def)

lemma demo_parse_conflicted:
  "parse_lockfile demo (stripBom demo (conflicted a b)) = Inl (Exn None ''YAMLException'')"
  by (simp add: parse_lockfile_def demo_def demo_stripBom_def demo_yaml_load_def conflicted_def)

lemma demo_isDiff_conflicted: "isDiff demo (stripBom demo (conflicted a b))"
  by (simp add: demo_def demo_stripBom_def demo_isDiff_def conflicted_def)

lemma demo_merge_60:
  "mergeFile_autofixMergeConflicts demo (stripBom demo (conflicted (version_line ''6.0'') (version_line ''6.0''))) =
     Inr (JObj Plain [(''lockfileVersion'', JStr ''6.0'')])"
  by (simp add: demo_defs)

lemma demo_merge_70:
  "mergeFile_autofixMergeConflicts demo (stripBom demo (conflicted (version_line ''7.0'') (version_line ''7.0''))) =
     Inr (JObj Plain [(''lockfileVersion'', JStr ''7.0'')])"
  by (simp add: demo_defs)

lemma demo_convert_version:
  "convertFromLockfileFileMutable demo (JObj Plain [(''lockfileVersion'', JStr v)]) = Inr (canonical v)"
  by (simp add: model_defs demo_defs)

section \<open>Properties of the reader\<close>

subsection \<open>The version test\<close>

text \<open>
  C1. A lockfile that exists and parses, whose format version has a major component that
  is the major component of no member of a non-empty set of wanted versions: when
  \<^verbatim>\<open>ignoreIncompatible\<close> is false the read throws LockfileBreakingChangeError with the path
  of the lockfile; when it is true the read returns the null lockfile with
  \<^verbatim>\<open>hadConflicts = false\<close>, after logging the warning that the lockfile is ignored.
  The lockfile is the one lines 56-74 produce, parsed or merged, with the log up to there;
  that the versions have major components means that \<^verbatim>\<open>semver.major\<close> does not throw.
\<close>

theorem incompatible_major_rejected:
  assumes "fs_readFileSync E p = Inr content"
    and "load_lockfile E p prefix os (stripBom E content) = (l, Inr (lf, conflicts))"
    and "truthy lf" and "lockfileSemver E lf = Inr sv" and "semver_major E sv = Inr m"
    and "wantedVersions os = Some ws" and "ws \<noteq> []"
    and "\<forall>w\<in>set ws. \<exists>mw. semver_major E (comverToSemver E w) = Inr mw \<and> mw \<noteq> m"
  shows "u_read E p prefix os =
           (if ignoreIncompatible os then
              (l @ [Warn (''Ignoring not compatible lockfile at '' @ p) prefix],
               Inr \<lparr>lockfile = JNull, hadConflicts = False\<rparr>)
            else (l, Inl (LockfileBreakingChangeError p)))"
proof -
  have "compatible E lf prefix os = ([], Inr False)"
    using assms(3-8) by (rule compatible_no_same_major)
  then show ?thesis
    using assms(1,2) by (simp add: u_read_loaded check_version_reject)
qed

text \<open>
  A run of the theorem in the small environment. The lockfile has version 7.0 and 6.0 is wanted.
\<close>

theorem incompatible_major_rejected_witness:
  "u_read demo ''/p70/pnpm-lock.yaml'' ''/p70'' (wanting [''6.0''] False) =
     ([], Inl (LockfileBreakingChangeError ''/p70/pnpm-lock.yaml'')) \<and>
   u_read demo ''/p70/pnpm-lock.yaml'' ''/p70'' (wanting [''6.0''] True) =
     ([Warn ''Ignoring not compatible lockfile at /p70/pnpm-lock.yaml'' ''/p70''],
      Inr \<lparr>lockfile = JNull, hadConflicts = False\<rparr>)"
proof -
  have h1: "fs_readFileSync demo ''/p70/pnpm-lock.yaml'' = Inr (version_line ''7.0'')"
    by (simp add: demo_def demo_files_def)
  have h2: "load_lockfile demo ''/p70/pnpm-lock.yaml'' ''/p70'' (wanting [''6.0''] b)
              (stripBom demo (version_line ''7.0'')) = ([], Inr (canonical ''7.0'', False))" for b
    by (rule demo_load_p70)
  have h3: "truthy (canonical ''7.0'')"
    by (simp add: truthy_def canonical_def)
  have h4: "lockfileSemver demo (canonical ''7.0'') = Inr ''7.0.0''"
    by (simp add: model_defs demo_defs)
  have h5: "semver_major demo ''7.0.0'' = Inr 7"
    by (simp add: demo_defs)
  have h6: "wantedVersions (wanting [''6.0''] b) = Some [''6.0'']" for b
    by (simp add: wanting_def)
  have h7: "[''6.0''] \<noteq> []"
    by simp
  have h8: "\<forall>w\<in>set [''6.0'']. \<exists>mw. semver_major demo (comverToSemver demo w) = Inr mw \<and> mw \<noteq> 7"
    by (simp add: demo_defs)
  show ?thesis
    using incompatible_major_rejected [OF h1 h2 [of False] h3 h4 h5 h6 h7 h8]
      incompatible_major_rejected [OF h1 h2 [of True] h3 h4 h5 h6 h7 h8]
    by (simp add: wanting_def)
qed

text \<open>
  C2. A format version that has the major component of some wanted version, and that is
  not greater than the first wanted version with that major component, in the order of
  the list: the read returns the lockfile and logs no downgrade warning.
  \<^verbatim>\<open>some\<close> stops at the first wanted version with the major component of the lockfile, so
  that member alone decides whether the warning is logged.
\<close>

theorem not_newer_than_first_same_major_accepted:
  assumes "fs_readFileSync E p = Inr content"
    and "load_lockfile E p prefix os (stripBom E content) = (l, Inr (lf, conflicts))"
    and "truthy lf" and "lockfileSemver E lf = Inr sv" and "semver_major E sv = Inr m"
    and "wantedVersions os = Some (pre @ w # post)"
    and "\<forall>x\<in>set pre. \<exists>mx. semver_major E (comverToSemver E x) = Inr mx \<and> mx \<noteq> m"
    and "semver_major E (comverToSemver E w) = Inr m"
    and "semver_gt E sv (comverToSemver E w) = Inr False"
  shows "u_read E p prefix os = (l, Inr \<lparr>lockfile = lf, hadConflicts = conflicts\<rparr>)"
proof -
  have "wanted_callback E lf sv prefix w = ([], Inr True)"
    using assms(5,8,9) by (rule wanted_callback_not_newer)
  with assms(3-7) have "compatible E lf prefix os = ([], Inr True)"
    by (rule compatible_first_same_major)
  then show ?thesis
    using assms(1,2) by (simp add: u_read_loaded check_version_accept)
qed

text \<open>
  A run of the theorem in the small environment. The lockfile has version 6.2; 5.4, 6.5 and 6.0 are wanted, in this order.
\<close>

theorem not_newer_than_first_same_major_accepted_witness:
  "u_read demo ''/p62/pnpm-lock.yaml'' ''/p62'' (wanting [''5.4'', ''6.5'', ''6.0''] False) =
     ([], Inr \<lparr>lockfile = canonical ''6.2'', hadConflicts = False\<rparr>)"
proof -
  have h1: "fs_readFileSync demo ''/p62/pnpm-lock.yaml'' = Inr (version_line ''6.2'')"
    by (simp add: demo_def demo_files_def)
  have h2: "load_lockfile demo ''/p62/pnpm-lock.yaml'' ''/p62'' (wanting [''5.4'', ''6.5'', ''6.0''] False)
              (stripBom demo (version_line ''6.2'')) = ([], Inr (canonical ''6.2'', False))"
    by (simp add: model_defs demo_defs)
  have h3: "truthy (canonical ''6.2'')"
    by (simp add: truthy_def canonical_def)
  have h4: "lockfileSemver demo (canonical ''6.2'') = Inr ''6.2.0''"
    by (simp add: model_defs demo_defs)
  have h5: "semver_major demo ''6.2.0'' = Inr 6"
    by (simp add: demo_defs)
  have h6: "wantedVersions (wanting [''5.4'', ''6.5'', ''6.0''] False) = Some ([''5.4''] @ ''6.5'' # [''6.0''])"
    by (simp add: wanting_def)
  have h7: "\<forall>x\<in>set [''5.4'']. \<exists>mx. semver_major demo (comverToSemver demo x) = Inr mx \<and> mx \<noteq> 6"
    by (simp add: demo_defs)
  have h8: "semver_major demo (comverToSemver demo ''6.5'') = Inr 6"
    by (simp add: demo_defs)
  have h9: "semver_gt demo ''6.2.0'' (comverToSemver demo ''6.5'') = Inr False"
    by (simp add: demo_defs)
  show ?thesis
    by (rule not_newer_than_first_same_major_accepted [OF h1 h2 h3 h4 h5 h6 h7 h8 h9])
qed

text \<open>
  With 6.0 and 6.5 wanted, in this order, the lockfile of version 6.2 has the major
  component of 6.5 and is not greater than it, and the read logs the downgrade warning all
  the same, for 6.0: a later member that is not exceeded does not silence the warning.
\<close>

theorem later_member_not_exceeded_counterexample:
  "semver_major demo (comverToSemver demo ''6.2'') = Inr 6 \<and>
   semver_major demo (comverToSemver demo ''6.5'') = Inr 6 \<and>
   semver_gt demo (comverToSemver demo ''6.2'') (comverToSemver demo ''6.5'') = Inr False \<and>
   u_read demo ''/p62/pnpm-lock.yaml'' ''/p62'' (wanting [''6.0'', ''6.5''] False) =
     ([Warn (downgrade_warning demo ''6.0'') ''/p62''],
      Inr \<lparr>lockfile = canonical ''6.2'', hadConflicts = False\<rparr>)"
  by (simp add: model_defs demo_defs wanting_def)

text \<open>
  C3. A format version that is greater than every wanted version with its major
  component, where there is one, and whose raw field is not the string \<^verbatim>\<open>'6.1'\<close>: the read
  logs the downgrade warning, for a member of the wanted versions, and still returns the
  lockfile, with the flag lines 56-74 gave it.
\<close>

theorem newer_than_same_major_warns:
  assumes "fs_readFileSync E p = Inr content"
    and "load_lockfile E p prefix os (stripBom E content) = (l, Inr (lf, conflicts))"
    and "truthy lf" and "lockfileSemver E lf = Inr sv" and "semver_major E sv = Inr m"
    and "wantedVersions os = Some ws"
    and "\<forall>w\<in>set ws. \<exists>mw. semver_major E (comverToSemver E w) = Inr mw"
    and "\<exists>w\<in>set ws. semver_major E (comverToSemver E w) = Inr m"
    and "\<forall>w\<in>set ws. semver_major E (comverToSemver E w) = Inr m \<longrightarrow>
           semver_gt E sv (comverToSemver E w) = Inr True"
    and "get_prop lf ''lockfileVersion'' \<noteq> JStr ''6.1''"
  shows "\<exists>w. w \<in> set ws \<and>
           u_read E p prefix os =
             (l @ [Warn (downgrade_warning E w) prefix],
              Inr \<lparr>lockfile = lf, hadConflicts = conflicts\<rparr>)"
proof -
  from assms(8) obtain pre w post where ws: "ws = pre @ w # post"
    and w: "semver_major E (comverToSemver E w) = Inr m"
    and pre: "\<forall>x\<in>set pre. semver_major E (comverToSemver E x) \<noteq> Inr m"
    by (auto dest!: split_list_first_prop)
  have others: "\<forall>x\<in>set pre. \<exists>mx. semver_major E (comverToSemver E x) = Inr mx \<and> mx \<noteq> m"
    using assms(7) pre ws by auto
  have "semver_gt E sv (comverToSemver E w) = Inr True"
    using assms(9) w ws by simp
  with assms(5) w have "wanted_callback E lf sv prefix w = ([Warn (downgrade_warning E w) prefix], Inr True)"
    using assms(10) by (rule wanted_callback_newer)
  with assms(3-5) have "compatible E lf prefix os = ([Warn (downgrade_warning E w) prefix], Inr True)"
    using others assms(6) ws by (intro compatible_first_same_major[where pre = pre and w = w and post = post]) simp_all
  then have "u_read E p prefix os =
      (l @ [Warn (downgrade_warning E w) prefix], Inr \<lparr>lockfile = lf, hadConflicts = conflicts\<rparr>)"
    using assms(1,2) by (simp add: u_read_loaded check_version_accept)
  then show ?thesis using ws by auto
qed

text \<open>
  A run of the theorem in the small environment. The lockfile has version 6.2; 5.4, 6.0 and 6.1 are wanted.
\<close>

theorem newer_than_same_major_warns_witness:
  "\<exists>w. w \<in> set [''5.4'', ''6.0'', ''6.1''] \<and>
     u_read demo ''/p62/pnpm-lock.yaml'' ''/p62'' (wanting [''5.4'', ''6.0'', ''6.1''] False) =
       ([] @ [Warn (downgrade_warning demo w) ''/p62''],
        Inr \<lparr>lockfile = canonical ''6.2'', hadConflicts = False\<rparr>)"
proof -
  have h1: "fs_readFileSync demo ''/p62/pnpm-lock.yaml'' = Inr (version_line ''6.2'')"
    by (simp add: demo_def demo_files_def)
  have h2: "load_lockfile demo ''/p62/pnpm-lock.yaml'' ''/p62'' (wanting [''5.4'', ''6.0'', ''6.1''] False)
              (stripBom demo (version_line ''6.2'')) = ([], Inr (canonical ''6.2'', False))"
    by (simp add: model_defs demo_defs)
  have h3: "truthy (canonical ''6.2'')"
    by (simp add: truthy_def canonical_def)
  have h4: "lockfileSemver demo (canonical ''6.2'') = Inr ''6.2.0''"
    by (simp add: model_defs demo_defs)
  have h5: "semver_major demo ''6.2.0'' = Inr 6"
    by (simp add: demo_defs)
  have h6: "wantedVersions (wanting [''5.4'', ''6.0'', ''6.1''] False) = Some [''5.4'', ''6.0'', ''6.1'']"
    by (simp add: wanting_def)
  have h7: "\<forall>w\<in>set [''5.4'', ''6.0'', ''6.1'']. \<exists>mw. semver_major demo (comverToSemver demo w) = Inr mw"
    by (simp add: demo_defs)
  have h8: "\<exists>w\<in>set [''5.4'', ''6.0'', ''6.1'']. semver_major demo (comverToSemver demo w) = Inr 6"
    by (simp add: demo_defs)
  have h9: "\<forall>w\<in>set [''5.4'', ''6.0'', ''6.1'']. semver_major demo (comverToSemver demo w) = Inr 6 \<longrightarrow>
           semver_gt demo ''6.2.0'' (comverToSemver demo w) = Inr True"
    by (simp add: demo_defs)
  have h10: "get_prop (canonical ''6.2'') ''lockfileVersion'' \<noteq> JStr ''6.1''"
    by (simp add: get_prop_def canonical_def)
  show ?thesis
    by (rule newer_than_same_major_warns [OF h1 h2 h3 h4 h5 h6 h7 h8 h9 h10])
qed

text \<open>
  C4. When \<^verbatim>\<open>wantedVersions\<close> is absent or empty, the read returns the lockfile lines 56-74
  produce, whatever its format version, and logs nothing more: no
  LockfileBreakingChangeError is thrown. The lockfile is truthy, as every object is, and
  its version field has a text.
\<close>

theorem no_wanted_versions_accepted:
  assumes "fs_readFileSync E p = Inr content"
    and "load_lockfile E p prefix os (stripBom E content) = (l, Inr (lf, conflicts))"
    and "truthy lf" and "lockfileSemver E lf = Inr sv"
    and "wantedVersions os = None \<or> wantedVersions os = Some []"
  shows "u_read E p prefix os = (l, Inr \<lparr>lockfile = lf, hadConflicts = conflicts\<rparr>)"
proof -
  have "compatible E lf prefix os = ([], Inr True)"
    using assms(3-5) by (auto simp: compatible_def version_wanted_def)
  then show ?thesis
    using assms(1,2) by (simp add: u_read_loaded check_version_accept)
qed

text \<open>
  A run of the theorem in the small environment. The lockfile has version 7.0; no versions are wanted, then an empty list.
\<close>

theorem no_wanted_versions_accepted_witness:
  "u_read demo ''/p70/pnpm-lock.yaml'' ''/p70''
     \<lparr>autofixMergeConflicts = None, wantedVersions = None, ignoreIncompatible = False\<rparr> =
     ([], Inr \<lparr>lockfile = canonical ''7.0'', hadConflicts = False\<rparr>) \<and>
   u_read demo ''/p70/pnpm-lock.yaml'' ''/p70'' (wanting [] False) =
     ([], Inr \<lparr>lockfile = canonical ''7.0'', hadConflicts = False\<rparr>)"
proof -
  have h1: "fs_readFileSync demo ''/p70/pnpm-lock.yaml'' = Inr (version_line ''7.0'')"
    by (simp add: demo_def demo_files_def)
  have h2: "load_lockfile demo ''/p70/pnpm-lock.yaml'' ''/p70'' os
              (stripBom demo (version_line ''7.0'')) = ([], Inr (canonical ''7.0'', False))" for os
    by (rule demo_load_p70)
  have h3: "truthy (canonical ''7.0'')"
    by (simp add: truthy_def canonical_def)
  have h4: "lockfileSemver demo (canonical ''7.0'') = Inr ''7.0.0''"
    by (simp add: model_defs demo_defs)
  have h5: "wantedVersions \<lparr>autofixMergeConflicts = None, wantedVersions = None, ignoreIncompatible = False\<rparr> = None
      \<or> wantedVersions \<lparr>autofixMergeConflicts = None, wantedVersions = None, ignoreIncompatible = False\<rparr> = Some []"
    by simp
  have h5': "wantedVersions (wanting [] False) = None \<or> wantedVersions (wanting [] False) = Some []"
    by (simp add: wanting_def)
  show ?thesis
    using no_wanted_versions_accepted [OF h1 h2 h3 h4 h5] no_wanted_versions_accepted [OF h1 h2 h3 h4 h5']
    by simp
qed

subsection \<open>The normalisation\<close>

text \<open>
  C5. Normalising twice is normalising once: \<^verbatim>\<open>convertFromLockfileFileMutable\<close> applied
  to its own result returns that result, and where the first call throws so does the
  composition. \<^verbatim>\<open>DEPENDENCIES_FIELDS\<close> is any list of field names without \<^verbatim>\<open>importers\<close>.
\<close>

theorem normalisation_idempotent:
  assumes "''importers'' \<notin> set (DEPENDENCIES_FIELDS E)"
  shows "(case convertFromLockfileFileMutable E d of
            Inl e \<Rightarrow> Inl e
          | Inr d' \<Rightarrow> convertFromLockfileFileMutable E d') = convertFromLockfileFileMutable E d"
proof (cases "convertFromLockfileFileMutable E d")
  case (Inl e)
  then show ?thesis by simp
next
  case (Inr d')
  with convert_cases[OF assms, of d] have "get_prop d' ''importers'' \<noteq> JUndefined"
    by (auto dest: rooted_importers)
  then show ?thesis using Inr by (simp add: convertFromLockfileFileMutable_def)
qed

text \<open>
  A run of the theorem in the small environment.
\<close>

theorem normalisation_idempotent_witness:
  "convertFromLockfileFileMutable demo legacy = Inr legacy_normalized \<and>
   convertFromLockfileFileMutable demo legacy_normalized = Inr legacy_normalized"
  using normalisation_idempotent [OF demo_fields, of legacy] demo_convert_legacy
  by simp

text \<open>
  C6. Normalising an object always succeeds and leaves \<^verbatim>\<open>importers\<close> defined. When the
  object had no \<^verbatim>\<open>importers\<close>, the new one maps \<^verbatim>\<open>'.'\<close> to a snapshot, and the only
  dependency fields left at the root are those whose value is \<^verbatim>\<open>null\<close>, which line 143
  skips.
\<close>

theorem normalised_root:
  assumes "''importers'' \<notin> set (DEPENDENCIES_FIELDS E)"
  shows "\<exists>d'. convertFromLockfileFileMutable E (JObj c ps) = Inr d' \<and>
           get_prop d' ''importers'' \<noteq> JUndefined \<and>
           (get_prop (JObj c ps) ''importers'' = JUndefined \<longrightarrow>
              (\<exists>snapshot. get_prop d' ''importers'' = JObj Plain [(''.'', JObj Plain snapshot)]) \<and>
              (\<forall>f\<in>set (DEPENDENCIES_FIELDS E). has_own_prop d' f \<longrightarrow> get_prop d' f = JNull))"
proof -
  from convert_cases[OF assms, of "JObj c ps"]
  consider "get_prop (JObj c ps) ''importers'' \<noteq> JUndefined"
      "convertFromLockfileFileMutable E (JObj c ps) = Inr (JObj c ps)"
    | d' where "get_prop (JObj c ps) ''importers'' = JUndefined"
      "convertFromLockfileFileMutable E (JObj c ps) = Inr d'" "rooted d'"
      "\<forall>g\<in>set (DEPENDENCIES_FIELDS E). has_own_prop d' g \<longrightarrow> get_prop d' g = JNull"
    by blast
  then show ?thesis
  proof cases
    case 1
    then show ?thesis by simp
  next
    case 2
    from 2(3) obtain c' ps' snapshot where "d' = JObj c' ps'"
      "map_of ps' ''importers'' = Some (JObj Plain [(''.'', JObj Plain snapshot)])"
      by (rule rootedE)
    then have "get_prop d' ''importers'' = JObj Plain [(''.'', JObj Plain snapshot)]"
      by (simp add: get_prop_def)
    with 2 show ?thesis by auto
  qed
qed

text \<open>
  A run of the theorem in the small environment. The field \<^verbatim>\<open>dependencies\<close> has gone from the root, \<^verbatim>\<open>devDependencies: null\<close> has stayed.
\<close>

theorem normalised_root_witness:
  "convertFromLockfileFileMutable demo legacy = Inr legacy_normalized \<and>
   get_prop legacy_normalized ''importers'' \<noteq> JUndefined \<and>
   get_prop legacy_normalized ''dependencies'' = JUndefined \<and>
   get_prop legacy_normalized ''devDependencies'' = JNull"
  using normalised_root [OF demo_fields, of Plain "[(''lockfileVersion'', JStr ''5.4''),
        (''specifiers'', JObj Plain [(''a'', JStr ''^1.0.0'')]),
        (''dependencies'', JObj Plain [(''a'', JStr ''1.0.0'')]),
        (''devDependencies'', JNull),
        (''packages'', JObj Plain [])]"]
    demo_convert_legacy
  by (simp add: legacy_def legacy_normalized_def get_prop_def)

text \<open>
  A dependency field can remain at the root: \<^verbatim>\<open>devDependencies\<close> when it is \<^verbatim>\<open>null\<close> in a
  legacy document, and \<^verbatim>\<open>dependencies\<close> in a document that has \<^verbatim>\<open>importers\<close> as well,
  which is returned as it is.
\<close>

theorem flat_field_left_at_root_counterexample:
  "convertFromLockfileFileMutable demo legacy = Inr legacy_normalized \<and>
   has_own_prop legacy_normalized ''devDependencies'' \<and>
   convertFromLockfileFileMutable demo mixed = Inr mixed \<and>
   has_own_prop mixed ''dependencies''"
  by (simp add: convertFromLockfileFileMutable_def root_snapshot_def get_prop_def set_prop_def
      delete_prop_def nullish_def demo_def legacy_def legacy_normalized_def mixed_def has_own_prop_def)

text \<open>
  C7. A document whose \<^verbatim>\<open>importers\<close> is defined is returned unchanged by the
  normalisation: the result is the very same value.
\<close>

theorem canonical_document_unchanged:
  assumes "get_prop d ''importers'' \<noteq> JUndefined"
  shows "convertFromLockfileFileMutable E d = Inr d"
  using assms by (simp add: convertFromLockfileFileMutable_def)

text \<open>
  A run of the theorem in the small environment.
\<close>

theorem canonical_document_unchanged_witness:
  "convertFromLockfileFileMutable demo mixed = Inr mixed"
proof -
  have "get_prop mixed ''importers'' \<noteq> JUndefined"
    by (simp add: get_prop_def mixed_def)
  then show ?thesis by (rule canonical_document_unchanged)
qed

subsection \<open>Failures of the read\<close>

text \<open>
  C8. A lockfile text for which the \<^verbatim>\<open>try\<close> of lines 58-62 throws. If autofix is on, the
  text has conflict markers, the merge returns a document that normalises, and the version
  test accepts that document, the read returns it with \<^verbatim>\<open>hadConflicts = true\<close>, after the
  log entry about the merge and what the version test logs. If autofix is not on or the
  text has no conflict markers, the read throws the PnpmError \<^verbatim>\<open>BROKEN_LOCKFILE\<close>, whose
  message has the path and the message of the exception caught.
\<close>

theorem parse_failure_merged_or_broken:
  assumes "fs_readFileSync E p = Inr content"
    and "parse_lockfile E (stripBom E content) = Inl err"
  shows "(autofixMergeConflicts os = Some True \<and> isDiff E (stripBom E content) \<and>
            mergeFile_autofixMergeConflicts E (stripBom E content) = Inr merged \<and>
            convertFromLockfileFileMutable E merged = Inr lf \<and>
            compatible E lf prefix os = (l, Inr True) \<longrightarrow>
          u_read E p prefix os =
            (Info (''Merge conflict detected in '' @ WANTED_LOCKFILE E @ '' and successfully merged'')
               prefix # l,
             Inr \<lparr>lockfile = lf, hadConflicts = True\<rparr>)) \<and>
         (autofixMergeConflicts os \<noteq> Some True \<or> \<not> isDiff E (stripBom E content) \<longrightarrow>
          u_read E p prefix os = ([], Inl (broken_lockfile p err)))"
proof (intro conjI impI)
  assume a: "autofixMergeConflicts os = Some True \<and> isDiff E (stripBom E content) \<and>
            mergeFile_autofixMergeConflicts E (stripBom E content) = Inr merged \<and>
            convertFromLockfileFileMutable E merged = Inr lf \<and>
            compatible E lf prefix os = (l, Inr True)"
  then have "load_lockfile E p prefix os (stripBom E content) =
       ([Info (''Merge conflict detected in '' @ WANTED_LOCKFILE E @ '' and successfully merged'') prefix],
        Inr (lf, True))"
    using assms(2) by (simp add: load_lockfile_merged)
  then show "u_read E p prefix os =
            (Info (''Merge conflict detected in '' @ WANTED_LOCKFILE E @ '' and successfully merged'')
               prefix # l,
             Inr \<lparr>lockfile = lf, hadConflicts = True\<rparr>)"
    using assms(1) a by (simp add: u_read_loaded check_version_accept)
next
  assume "autofixMergeConflicts os \<noteq> Some True \<or> \<not> isDiff E (stripBom E content)"
  then show "u_read E p prefix os = ([], Inl (broken_lockfile p err))"
    using assms by (auto simp: u_read_def load_lockfile_def)
qed

text \<open>
  A run of the theorem in the small environment. A conflicted file that merges to version 6.0, read with autofix and then without.
\<close>

theorem parse_failure_merged_or_broken_witness:
  "u_read demo ''/c60/pnpm-lock.yaml'' ''/c60'' (wanting [''6.0''] False) =
     ([Info ''Merge conflict detected in pnpm-lock.yaml and successfully merged'' ''/c60''],
      Inr \<lparr>lockfile = canonical ''6.0'', hadConflicts = True\<rparr>) \<and>
   u_read demo ''/c60/pnpm-lock.yaml'' ''/c60''
       \<lparr>autofixMergeConflicts = None, wantedVersions = None, ignoreIncompatible = False\<rparr> =
     ([], Inl (broken_lockfile ''/c60/pnpm-lock.yaml'' (Exn None ''YAMLException'')))"
proof -
  have ok: "compatible demo (canonical ''6.0'') ''/c60'' (wanting [''6.0''] False) = ([], Inr True)"
    by (simp add: model_defs demo_defs wanting_def)
  have on: "autofixMergeConflicts (wanting [''6.0''] False) = Some True"
    by (simp add: wanting_def)
  have wl: "WANTED_LOCKFILE demo = ''pnpm-lock.yaml''"
    by (simp add: demo_def)
  show ?thesis
    using parse_failure_merged_or_broken [OF demo_c60 demo_parse_conflicted,
        of "wanting [''6.0''] False" "JObj Plain [(''lockfileVersion'', JStr ''6.0'')]"
           "canonical ''6.0''" "''/c60''" "[]"]
      parse_failure_merged_or_broken [OF demo_c60 demo_parse_conflicted,
        of "\<lparr>autofixMergeConflicts = None, wantedVersions = None, ignoreIncompatible = False\<rparr>"]
      ok on wl demo_isDiff_conflicted demo_merge_60 demo_convert_version
    by simp
qed

text \<open>
  A conflicted file that merges to version 7.0 when 6.0 is wanted: the parse fails, the
  text has conflict markers, the merge succeeds, and the read throws
  LockfileBreakingChangeError instead of returning the merged document.
\<close>

theorem merged_but_incompatible_counterexample:
  "parse_lockfile demo (stripBom demo (conflicted (version_line ''7.0'') (version_line ''7.0''))) =
     Inl (Exn None ''YAMLException'') \<and>
   isDiff demo (stripBom demo (conflicted (version_line ''7.0'') (version_line ''7.0''))) \<and>
   mergeFile_autofixMergeConflicts demo
       (stripBom demo (conflicted (version_line ''7.0'') (version_line ''7.0''))) =
     Inr (JObj Plain [(''lockfileVersion'', JStr ''7.0'')]) \<and>
   u_read demo ''/c70/pnpm-lock.yaml'' ''/c70'' (wanting [''6.0''] False) =
     ([Info ''Merge conflict detected in pnpm-lock.yaml and successfully merged'' ''/c70''],
      Inl (LockfileBreakingChangeError ''/c70/pnpm-lock.yaml''))"
  by (simp add: model_defs demo_defs wanting_def)

text \<open>
  C9. When \<^verbatim>\<open>readFileSync\<close> throws an error whose code is \<^verbatim>\<open>ENOENT\<close>, the read returns
  the null lockfile with \<^verbatim>\<open>hadConflicts = false\<close> and logs nothing; when it throws any
  other error, the read throws that same error.
\<close>

theorem missing_file_absent_other_failures_thrown:
  assumes "fs_readFileSync E p = Inl err"
  shows "u_read E p prefix os =
           (if code err = Some ''ENOENT'' then ([], Inr \<lparr>lockfile = JNull, hadConflicts = False\<rparr>)
            else ([], Inl (Thrown err)))"
  using assms by (simp add: u_read_def)

text \<open>
  A run of the theorem in the small environment. A path with no file, and a file that may not be read.
\<close>

theorem missing_file_absent_other_failures_thrown_witness:
  "u_read demo ''/none/pnpm-lock.yaml'' ''/none'' (wanting [''6.0''] False) =
     ([], Inr \<lparr>lockfile = JNull, hadConflicts = False\<rparr>) \<and>
   u_read demo ''/denied/pnpm-lock.yaml'' ''/denied'' (wanting [''6.0''] False) =
     ([], Inl (Thrown (Exn (Some ''EACCES'') ''EACCES: permission denied'')))"
proof -
  have h1: "fs_readFileSync demo ''/none/pnpm-lock.yaml'' =
      Inl (Exn (Some ''ENOENT'') ''ENOENT: no such file or directory'')"
    by (simp add: demo_def demo_files_def)
  have h2: "fs_readFileSync demo ''/denied/pnpm-lock.yaml'' =
      Inl (Exn (Some ''EACCES'') ''EACCES: permission denied'')"
    by (simp add: demo_def demo_files_def)
  show ?thesis
    using missing_file_absent_other_failures_thrown [OF h1]
      missing_file_absent_other_failures_thrown [OF h2]
    by simp
qed

text \<open>
  C10. A lockfile whose conflicts were merged, whose format version has the major
  component of no wanted version, read with \<^verbatim>\<open>ignoreIncompatible\<close>: the result is the null
  lockfile with \<^verbatim>\<open>hadConflicts = false\<close>; the flag set at line 71 is dropped with the
  document. Both the merge and the warning are logged.
\<close>

theorem merged_incompatible_ignored_drops_flag:
  assumes "fs_readFileSync E p = Inr content"
    and "parse_lockfile E (stripBom E content) = Inl err"
    and "autofixMergeConflicts os = Some True" and "isDiff E (stripBom E content)"
    and "mergeFile_autofixMergeConflicts E (stripBom E content) = Inr merged"
    and "convertFromLockfileFileMutable E merged = Inr lf"
    and "lockfileSemver E lf = Inr sv" and "semver_major E sv = Inr m"
    and "wantedVersions os = Some ws" and "ws \<noteq> []"
    and "\<forall>w\<in>set ws. \<exists>mw. semver_major E (comverToSemver E w) = Inr mw \<and> mw \<noteq> m"
    and "ignoreIncompatible os"
  shows "u_read E p prefix os =
           ([Info (''Merge conflict detected in '' @ WANTED_LOCKFILE E @ '' and successfully merged'') prefix,
             Warn (''Ignoring not compatible lockfile at '' @ p) prefix],
            Inr \<lparr>lockfile = JNull, hadConflicts = False\<rparr>)"
proof -
  have load: "load_lockfile E p prefix os (stripBom E content) =
       ([Info (''Merge conflict detected in '' @ WANTED_LOCKFILE E @ '' and successfully merged'') prefix],
        Inr (lf, True))"
    using assms(2-6) by (rule load_lockfile_merged)
  have "truthy lf"
    using assms(6) by (rule convert_result_truthy)
  then have "compatible E lf prefix os = ([], Inr False)"
    using assms(7-11) by (rule compatible_no_same_major)
  then show ?thesis
    using assms(1,12) load by (simp add: u_read_loaded check_version_reject)
qed

text \<open>
  A run of the theorem in the small environment. A conflicted file that merges to version 7.0 when 6.0 is wanted.
\<close>

theorem merged_incompatible_ignored_drops_flag_witness:
  "u_read demo ''/c70/pnpm-lock.yaml'' ''/c70'' (wanting [''6.0''] True) =
     ([Info ''Merge conflict detected in pnpm-lock.yaml and successfully merged'' ''/c70'',
       Warn ''Ignoring not compatible lockfile at /c70/pnpm-lock.yaml'' ''/c70''],
      Inr \<lparr>lockfile = JNull, hadConflicts = False\<rparr>)"
proof -
  have h3: "autofixMergeConflicts (wanting [''6.0''] True) = Some True"
    by (simp add: wanting_def)
  have h7: "lockfileSemver demo (canonical ''7.0'') = Inr ''7.0.0''"
    by (simp add: model_defs demo_defs)
  have h8: "semver_major demo ''7.0.0'' = Inr 7"
    by (simp add: demo_defs)
  have h9: "wantedVersions (wanting [''6.0''] True) = Some [''6.0'']"
    by (simp add: wanting_def)
  have h10: "[''6.0''] \<noteq> []"
    by simp
  have h11: "\<forall>w\<in>set [''6.0'']. \<exists>mw. semver_major demo (comverToSemver demo w) = Inr mw \<and> mw \<noteq> 7"
    by (simp add: demo_defs)
  have h12: "ignoreIncompatible (wanting [''6.0''] True)"
    by (simp add: wanting_def)
  show ?thesis
    using merged_incompatible_ignored_drops_flag [OF demo_c70 demo_parse_conflicted h3
        demo_isDiff_conflicted demo_merge_70 demo_convert_version h7 h8 h9 h10 h11 h12, of "''/c70''"]
    by (simp add: demo_def)
qed

end
